theory Spec2Isabelle
  imports Main
begin

section \<open>Social caption generator: the action handlers over the entity store\<close>

text \<open>
  The repository consists of the table declarations (\<open>src/db/tables.ts\<close>) and one module of
  Astro actions: \<open>requireUser\<close>, the two access guards \<open>getOwnedSession\<close> and
  \<open>ensureTemplateAccessible\<close>, and nine handlers wrapped by \<open>defineAction\<close>.

  The embedding is by explicit state passing. A handler is a function from its input, the
  request context, the two ambient values it draws (\<open>crypto.randomUUID()\<close>, \<open>new Date()\<close>)
  and the store to a result and the store afterwards. A thrown error is the left summand of
  the result. TypeScript \<open>undefined\<close>/\<open>null\<close> is \<open>None\<close>; strings are \<open>string\<close>, and the only
  things the code asks of a string are equality and emptiness (zod's \<open>min(1)\<close> and
  JavaScript truthiness).
\<close>

subsection \<open>Rows of the three tables\<close>

text \<open>
  One record per \<open>defineTable\<close>. A column declared \<open>optional: true\<close> is nullable and has an
  option type. Field names carry the row kind as a prefix, since all three tables have a
  column \<open>id\<close>. Dates are numbers (milliseconds).
\<close>

record SessionRow =
  session_id :: string
  session_userId :: string
  session_name :: string
  session_description :: "string option"
  session_coreMessage :: "string option"
  session_targetAudience :: "string option"
  session_createdAt :: nat
  session_updatedAt :: nat

record CaptionRow =
  caption_id :: string
  caption_sessionId :: string
  caption_platform :: "string option"
  caption_tone :: "string option"
  caption_variantLabel :: "string option"
  caption_captionText :: string
  caption_hashtags :: "string option"
  caption_createdAt :: nat

record TemplateRow =
  template_id :: string
  template_userId :: "string option"
  template_name :: string
  template_platform :: "string option"
  template_tone :: "string option"
  template_body :: string
  template_isSystem :: bool
  template_createdAt :: nat

subsection \<open>The store\<close>

text \<open>
  The store holds the three tables, each a list of rows in insertion order, and the list of
  statements issued against it so far. The statement list is what makes "before any store
  access" a statement about the model: a handler that returns the store it was given has
  issued no statement at all.
\<close>

datatype Table = CaptionSessionsT | CaptionsT | CaptionTemplatesT

datatype Statement = Select Table | Insert Table | Update Table | Delete Table

record Db =
  CaptionSessions :: "SessionRow list"
  Captions :: "CaptionRow list"
  CaptionTemplates :: "TemplateRow list"
  statements :: "Statement list"

subsection \<open>Errors\<close>

datatype ActionErrorCode = UNAUTHORIZED | NOT_FOUND | FORBIDDEN

text \<open>
  \<open>ActionError\<close> is what the module itself throws, with its code and message.
  \<open>ActionInputError\<close> is what the validation layer answers when the input does not satisfy
  the action's schema (the specification's \<open>InvalidInput\<close>). \<open>StoreError\<close> is a failure of
  the store call itself, which the handlers let through unchanged.
\<close>

datatype error = ActionError ActionErrorCode string | ActionInputError | StoreError

subsection \<open>Predicates of the store\<close>

text \<open>
  Modelled from the spec: the relational store of section 6(b), "insert/select/update/delete
  with equality and boolean-combinator (AND/OR) predicates"; \<open>astro:db\<close> is imported by the
  module and is not part of the repository. The predicates are those of SQL: \<open>eq(c, v)\<close>
  is the comparison \<open>c = v\<close> with \<open>v\<close> bound as a parameter, so a comparison with a null
  operand (a null column, or \<open>eq(c, null)\<close>) is unknown (\<open>None\<close>); \<open>AND\<close> and \<open>OR\<close> are the
  three-valued connectives, and a \<open>where\<close> clause keeps the rows on which the predicate is
  true.
\<close>

definition eq :: "'a option \<Rightarrow> 'a option \<Rightarrow> bool option" where
  "eq a b = (case a of None \<Rightarrow> None
             | Some x \<Rightarrow> (case b of None \<Rightarrow> None | Some y \<Rightarrow> Some (x = y)))"

definition and_sql :: "bool option \<Rightarrow> bool option \<Rightarrow> bool option" where
  "and_sql p q =
     (if p = Some False \<or> q = Some False then Some False
      else if p = Some True \<and> q = Some True then Some True
      else None)"

definition or_sql :: "bool option \<Rightarrow> bool option \<Rightarrow> bool option" where
  "or_sql p q =
     (if p = Some True \<or> q = Some True then Some True
      else if p = Some False \<and> q = Some False then Some False
      else None)"

definition where_sql :: "('r \<Rightarrow> bool option) \<Rightarrow> 'r list \<Rightarrow> 'r list" where
  "where_sql p rows = filter (\<lambda>r. p r = Some True) rows"

text \<open>The statement is recorded, whatever it returns.\<close>

definition issue :: "Statement \<Rightarrow> Db \<Rightarrow> Db" where
  "issue s db = db\<lparr>statements := statements db @ [s]\<rparr>"

subsection \<open>Statements of the store\<close>

text \<open>
  Modelled from the spec: the same store, one definition for each combination of statement
  and table that the module uses. \<open>select\<close> returns the matching rows. \<open>insert ... returning\<close>
  appends the row and returns it; the column \<open>id\<close> is declared \<open>primaryKey: true\<close>, so an
  insertion under an id already in the table fails and leaves the table as it was.
  \<open>update ... set ... where ... returning\<close> rewrites every matching row and returns the
  rewritten rows. \<open>delete ... where\<close> removes the matching rows and reports how many.
\<close>

definition select_CaptionSessions ::
  "(SessionRow \<Rightarrow> bool option) \<Rightarrow> Db \<Rightarrow> SessionRow list \<times> Db" where
  "select_CaptionSessions p db =
     (where_sql p (CaptionSessions db), issue (Select CaptionSessionsT) db)"

definition select_Captions ::
  "(CaptionRow \<Rightarrow> bool option) \<Rightarrow> Db \<Rightarrow> CaptionRow list \<times> Db" where
  "select_Captions p db = (where_sql p (Captions db), issue (Select CaptionsT) db)"

definition select_CaptionTemplates ::
  "(TemplateRow \<Rightarrow> bool option) \<Rightarrow> Db \<Rightarrow> TemplateRow list \<times> Db" where
  "select_CaptionTemplates p db =
     (where_sql p (CaptionTemplates db), issue (Select CaptionTemplatesT) db)"

definition insert_CaptionSessions :: "SessionRow \<Rightarrow> Db \<Rightarrow> (error + SessionRow list) \<times> Db" where
  "insert_CaptionSessions row db =
     (if session_id row \<in> set (map session_id (CaptionSessions db))
      then (Inl StoreError, issue (Insert CaptionSessionsT) db)
      else (Inr [row],
            issue (Insert CaptionSessionsT) (db\<lparr>CaptionSessions := CaptionSessions db @ [row]\<rparr>)))"

definition insert_Captions :: "CaptionRow \<Rightarrow> Db \<Rightarrow> (error + CaptionRow list) \<times> Db" where
  "insert_Captions row db =
     (if caption_id row \<in> set (map caption_id (Captions db))
      then (Inl StoreError, issue (Insert CaptionsT) db)
      else (Inr [row], issue (Insert CaptionsT) (db\<lparr>Captions := Captions db @ [row]\<rparr>)))"

definition insert_CaptionTemplates ::
  "TemplateRow \<Rightarrow> Db \<Rightarrow> (error + TemplateRow list) \<times> Db" where
  "insert_CaptionTemplates row db =
     (if template_id row \<in> set (map template_id (CaptionTemplates db))
      then (Inl StoreError, issue (Insert CaptionTemplatesT) db)
      else (Inr [row],
            issue (Insert CaptionTemplatesT)
              (db\<lparr>CaptionTemplates := CaptionTemplates db @ [row]\<rparr>)))"

definition update_CaptionSessions ::
  "(SessionRow \<Rightarrow> SessionRow) \<Rightarrow> (SessionRow \<Rightarrow> bool option) \<Rightarrow> Db \<Rightarrow> SessionRow list \<times> Db" where
  "update_CaptionSessions set_cols p db =
     (map set_cols (where_sql p (CaptionSessions db)),
      issue (Update CaptionSessionsT)
        (db\<lparr>CaptionSessions :=
              map (\<lambda>r. if p r = Some True then set_cols r else r) (CaptionSessions db)\<rparr>))"

definition update_Captions ::
  "(CaptionRow \<Rightarrow> CaptionRow) \<Rightarrow> (CaptionRow \<Rightarrow> bool option) \<Rightarrow> Db \<Rightarrow> CaptionRow list \<times> Db" where
  "update_Captions set_cols p db =
     (map set_cols (where_sql p (Captions db)),
      issue (Update CaptionsT)
        (db\<lparr>Captions := map (\<lambda>r. if p r = Some True then set_cols r else r) (Captions db)\<rparr>))"

text \<open>The number returned is \<open>rowsAffected\<close>.\<close>

definition delete_Captions :: "(CaptionRow \<Rightarrow> bool option) \<Rightarrow> Db \<Rightarrow> nat \<times> Db" where
  "delete_Captions p db =
     (length (where_sql p (Captions db)),
      issue (Delete CaptionsT) (db\<lparr>Captions := filter (\<lambda>r. p r \<noteq> Some True) (Captions db)\<rparr>))"

text \<open>
  The array pattern \<open>const [row] = rows\<close> binds the first element, or \<open>undefined\<close> when the
  array is empty.
\<close>

definition first_row :: "'r list \<Rightarrow> 'r option" where
  "first_row rows = (case rows of [] \<Rightarrow> None | r # _ \<Rightarrow> Some r)"

subsection \<open>Identity resolution\<close>

text \<open>
  The request context carries \<open>locals\<close>, which may be missing, and \<open>locals.user\<close>, which may
  be missing too. Of the user record the module reads the \<open>id\<close> only.
\<close>

record User =
  user_id :: string

record Locals =
  user :: "User option"

record ActionAPIContext =
  locals :: "Locals option"

text \<open>The optional chain \<open>locals?.user\<close>.\<close>

definition locals_user :: "ActionAPIContext \<Rightarrow> User option" where
  "locals_user context = (case locals context of None \<Rightarrow> None | Some l \<Rightarrow> user l)"

definition requireUser :: "ActionAPIContext \<Rightarrow> error + User" where
  "requireUser context =
     (case locals_user context of
        None \<Rightarrow> Inl (ActionError UNAUTHORIZED ''You must be signed in to perform this action.'')
      | Some u \<Rightarrow> Inr u)"

subsection \<open>Access guards\<close>

definition getOwnedSession :: "string \<Rightarrow> string \<Rightarrow> Db \<Rightarrow> (error + SessionRow) \<times> Db" where
  "getOwnedSession sessionId userId db =
     (case select_CaptionSessions
             (\<lambda>r. and_sql (eq (Some (session_id r)) (Some sessionId))
                          (eq (Some (session_userId r)) (Some userId))) db of
        (rows, db') \<Rightarrow>
          (case first_row rows of
             None \<Rightarrow> (Inl (ActionError NOT_FOUND ''Caption session not found.''), db')
           | Some session \<Rightarrow> (Inr session, db')))"

text \<open>
  The second test is JavaScript's \<open>template.userId && template.userId !== userId\<close>: the left
  operand is falsy for \<open>null\<close> and for the empty string.
\<close>

definition truthy :: "string option \<Rightarrow> bool" where
  "truthy v = (case v of None \<Rightarrow> False | Some s \<Rightarrow> s \<noteq> [])"

definition ensureTemplateAccessible ::
  "string \<Rightarrow> string \<Rightarrow> Db \<Rightarrow> (error + TemplateRow) \<times> Db" where
  "ensureTemplateAccessible templateId userId db =
     (case select_CaptionTemplates (\<lambda>r. eq (Some (template_id r)) (Some templateId)) db of
        (rows, db') \<Rightarrow>
          (case first_row rows of
             None \<Rightarrow> (Inl (ActionError NOT_FOUND ''Template not found.''), db')
           | Some template \<Rightarrow>
               (if truthy (template_userId template) \<and> template_userId template \<noteq> Some userId
                then (Inl (ActionError FORBIDDEN ''You do not have access to this template.''), db')
                else (Inr template, db'))))"

subsection \<open>The validation layer\<close>

text \<open>
  Modelled from the spec: the request-validation layer of section 6(c), "enforcing input
  shape before handlers run"; \<open>defineAction\<close> comes from \<open>astro:actions\<close>. An input that
  fails the action's schema is answered with \<open>ActionInputError\<close> and the handler does not
  run. A schema is the predicate that its zod expression accepts; the types of the fields
  are part of the input records below, so what is left of a schema is its \<open>min(1)\<close> and
  \<open>refine\<close> conditions.
\<close>

definition defineAction ::
  "('i \<Rightarrow> bool) \<Rightarrow> ('i \<Rightarrow> 'c \<Rightarrow> 'e \<Rightarrow> Db \<Rightarrow> (error + 'a) \<times> Db) \<Rightarrow>
   'i \<Rightarrow> 'c \<Rightarrow> 'e \<Rightarrow> Db \<Rightarrow> (error + 'a) \<times> Db" where
  "defineAction input_schema handler inp context env db =
     (if input_schema inp then handler inp context env db else (Inl ActionInputError, db))"

text \<open>\<open>z.string().min(1)\<close>, and the same under \<open>.optional()\<close>.\<close>

definition min1 :: "string \<Rightarrow> bool" where
  "min1 s = (1 \<le> length s)"

definition optional_min1 :: "string option \<Rightarrow> bool" where
  "optional_min1 v = (case v of None \<Rightarrow> True | Some s \<Rightarrow> min1 s)"

text \<open>
  The two values a handler draws from its surroundings: the result of
  \<open>crypto.randomUUID()\<close> and of \<open>new Date()\<close>. No handler draws either more than once.
\<close>

record Env =
  randomUUID :: string
  new_Date :: nat

text \<open>The payload \<open>{ items, total }\<close> of the three list actions.\<close>

record 'r Listing =
  items :: "'r list"
  total :: nat

subsection \<open>Session handlers\<close>

record CreateCaptionSessionInput =
  ccs_name :: string
  ccs_description :: "string option"
  ccs_coreMessage :: "string option"
  ccs_targetAudience :: "string option"

definition createCaptionSession_input :: "CreateCaptionSessionInput \<Rightarrow> bool" where
  "createCaptionSession_input inp = min1 (ccs_name inp)"

definition createCaptionSession_handler ::
  "CreateCaptionSessionInput \<Rightarrow> ActionAPIContext \<Rightarrow> Env \<Rightarrow> Db \<Rightarrow> (error + SessionRow option) \<times> Db" where
  "createCaptionSession_handler inp context env db =
     (case requireUser context of
        Inl e \<Rightarrow> (Inl e, db)
      | Inr u \<Rightarrow>
          (let now = new_Date env in
           case insert_CaptionSessions
                  \<lparr>session_id = randomUUID env,
                   session_userId = user_id u,
                   session_name = ccs_name inp,
                   session_description = ccs_description inp,
                   session_coreMessage = ccs_coreMessage inp,
                   session_targetAudience = ccs_targetAudience inp,
                   session_createdAt = now,
                   session_updatedAt = now\<rparr> db of
             (Inl e, db') \<Rightarrow> (Inl e, db')
           | (Inr rows, db') \<Rightarrow> (Inr (first_row rows), db')))"

record UpdateCaptionSessionInput =
  ucs_id :: string
  ucs_name :: "string option"
  ucs_description :: "string option"
  ucs_coreMessage :: "string option"
  ucs_targetAudience :: "string option"

definition updateCaptionSession_input :: "UpdateCaptionSessionInput \<Rightarrow> bool" where
  "updateCaptionSession_input inp =
     (min1 (ucs_id inp) \<and> optional_min1 (ucs_name inp) \<and>
      (ucs_name inp \<noteq> None \<or> ucs_description inp \<noteq> None \<or>
       ucs_coreMessage inp \<noteq> None \<or> ucs_targetAudience inp \<noteq> None))"

text \<open>
  The object given to \<open>set\<close>: a column is in it only when the input has the field, and
  \<open>updatedAt\<close> always is.
\<close>

definition updateCaptionSession_set :: "UpdateCaptionSessionInput \<Rightarrow> Env \<Rightarrow> SessionRow \<Rightarrow> SessionRow" where
  "updateCaptionSession_set inp env r =
     r\<lparr>session_name := (case ucs_name inp of None \<Rightarrow> session_name r | Some v \<Rightarrow> v),
       session_description :=
         (case ucs_description inp of None \<Rightarrow> session_description r | Some v \<Rightarrow> Some v),
       session_coreMessage :=
         (case ucs_coreMessage inp of None \<Rightarrow> session_coreMessage r | Some v \<Rightarrow> Some v),
       session_targetAudience :=
         (case ucs_targetAudience inp of None \<Rightarrow> session_targetAudience r | Some v \<Rightarrow> Some v),
       session_updatedAt := new_Date env\<rparr>"

definition updateCaptionSession_handler ::
  "UpdateCaptionSessionInput \<Rightarrow> ActionAPIContext \<Rightarrow> Env \<Rightarrow> Db \<Rightarrow> (error + SessionRow option) \<times> Db" where
  "updateCaptionSession_handler inp context env db =
     (case requireUser context of
        Inl e \<Rightarrow> (Inl e, db)
      | Inr u \<Rightarrow>
          (case getOwnedSession (ucs_id inp) (user_id u) db of
             (Inl e, db1) \<Rightarrow> (Inl e, db1)
           | (Inr _, db1) \<Rightarrow>
               (case update_CaptionSessions (updateCaptionSession_set inp env)
                       (\<lambda>r. eq (Some (session_id r)) (Some (ucs_id inp))) db1 of
                  (rows, db2) \<Rightarrow> (Inr (first_row rows), db2))))"

definition listCaptionSessions_handler ::
  "unit \<Rightarrow> ActionAPIContext \<Rightarrow> Env \<Rightarrow> Db \<Rightarrow> (error + SessionRow Listing) \<times> Db" where
  "listCaptionSessions_handler inp context env db =
     (case requireUser context of
        Inl e \<Rightarrow> (Inl e, db)
      | Inr u \<Rightarrow>
          (case select_CaptionSessions (\<lambda>r. eq (Some (session_userId r)) (Some (user_id u))) db of
             (sessions, db') \<Rightarrow> (Inr \<lparr>items = sessions, total = length sessions\<rparr>, db')))"

subsection \<open>Caption handlers\<close>

record CreateCaptionInput =
  cc_sessionId :: string
  cc_platform :: "string option"
  cc_tone :: "string option"
  cc_variantLabel :: "string option"
  cc_captionText :: string
  cc_hashtags :: "string option"
  cc_templateId :: "string option"

definition createCaption_input :: "CreateCaptionInput \<Rightarrow> bool" where
  "createCaption_input inp = (min1 (cc_sessionId inp) \<and> min1 (cc_captionText inp))"

text \<open>
  The guard \<open>if (input.templateId)\<close> is a truthiness test: the template is looked up when the
  field is present and not the empty string.
\<close>

definition createCaption_handler ::
  "CreateCaptionInput \<Rightarrow> ActionAPIContext \<Rightarrow> Env \<Rightarrow> Db \<Rightarrow> (error + CaptionRow option) \<times> Db" where
  "createCaption_handler inp context env db =
     (case requireUser context of
        Inl e \<Rightarrow> (Inl e, db)
      | Inr u \<Rightarrow>
          (case getOwnedSession (cc_sessionId inp) (user_id u) db of
             (Inl e, db1) \<Rightarrow> (Inl e, db1)
           | (Inr _, db1) \<Rightarrow>
               (case (case cc_templateId inp of
                        None \<Rightarrow> (Inr (), db1)
                      | Some templateId \<Rightarrow>
                          (if truthy (Some templateId)
                           then (case ensureTemplateAccessible templateId (user_id u) db1 of
                                   (Inl e, db2) \<Rightarrow> (Inl e, db2)
                                 | (Inr _, db2) \<Rightarrow> (Inr (), db2))
                           else (Inr (), db1))) of
                  (Inl e, db2) \<Rightarrow> (Inl e, db2)
                | (Inr _, db2) \<Rightarrow>
                    (case insert_Captions
                            \<lparr>caption_id = randomUUID env,
                             caption_sessionId = cc_sessionId inp,
                             caption_platform = cc_platform inp,
                             caption_tone = cc_tone inp,
                             caption_variantLabel = cc_variantLabel inp,
                             caption_captionText = cc_captionText inp,
                             caption_hashtags = cc_hashtags inp,
                             caption_createdAt = new_Date env\<rparr> db2 of
                       (Inl e, db3) \<Rightarrow> (Inl e, db3)
                     | (Inr rows, db3) \<Rightarrow> (Inr (first_row rows), db3)))))"

record UpdateCaptionInput =
  uc_id :: string
  uc_sessionId :: string
  uc_platform :: "string option"
  uc_tone :: "string option"
  uc_variantLabel :: "string option"
  uc_captionText :: "string option"
  uc_hashtags :: "string option"

definition updateCaption_input :: "UpdateCaptionInput \<Rightarrow> bool" where
  "updateCaption_input inp =
     (min1 (uc_id inp) \<and> min1 (uc_sessionId inp) \<and>
      (uc_platform inp \<noteq> None \<or> uc_tone inp \<noteq> None \<or> uc_variantLabel inp \<noteq> None \<or>
       uc_captionText inp \<noteq> None \<or> uc_hashtags inp \<noteq> None))"

text \<open>
  The object given to \<open>set\<close>, column by column as for sessions. Behind the schema's \<open>refine\<close>
  it always has a column.
\<close>

definition updateCaption_set :: "UpdateCaptionInput \<Rightarrow> CaptionRow \<Rightarrow> CaptionRow" where
  "updateCaption_set inp r =
     r\<lparr>caption_platform := (case uc_platform inp of None \<Rightarrow> caption_platform r | Some v \<Rightarrow> Some v),
       caption_tone := (case uc_tone inp of None \<Rightarrow> caption_tone r | Some v \<Rightarrow> Some v),
       caption_variantLabel :=
         (case uc_variantLabel inp of None \<Rightarrow> caption_variantLabel r | Some v \<Rightarrow> Some v),
       caption_captionText :=
         (case uc_captionText inp of None \<Rightarrow> caption_captionText r | Some v \<Rightarrow> v),
       caption_hashtags := (case uc_hashtags inp of None \<Rightarrow> caption_hashtags r | Some v \<Rightarrow> Some v)\<rparr>"

definition updateCaption_handler ::
  "UpdateCaptionInput \<Rightarrow> ActionAPIContext \<Rightarrow> Env \<Rightarrow> Db \<Rightarrow> (error + CaptionRow option) \<times> Db" where
  "updateCaption_handler inp context env db =
     (case requireUser context of
        Inl e \<Rightarrow> (Inl e, db)
      | Inr u \<Rightarrow>
          (case getOwnedSession (uc_sessionId inp) (user_id u) db of
             (Inl e, db1) \<Rightarrow> (Inl e, db1)
           | (Inr _, db1) \<Rightarrow>
               (case select_Captions
                       (\<lambda>r. and_sql (eq (Some (caption_id r)) (Some (uc_id inp)))
                                    (eq (Some (caption_sessionId r)) (Some (uc_sessionId inp)))) db1 of
                  (found, db2) \<Rightarrow>
                    (case first_row found of
                       None \<Rightarrow> (Inl (ActionError NOT_FOUND ''Caption not found.''), db2)
                     | Some existing \<Rightarrow>
                         (case update_Captions (updateCaption_set inp)
                                 (\<lambda>r. eq (Some (caption_id r)) (Some (uc_id inp))) db2 of
                            (rows, db3) \<Rightarrow> (Inr (first_row rows), db3))))))"

record DeleteCaptionInput =
  dc_id :: string
  dc_sessionId :: string

definition deleteCaption_input :: "DeleteCaptionInput \<Rightarrow> bool" where
  "deleteCaption_input inp = (min1 (dc_id inp) \<and> min1 (dc_sessionId inp))"

definition deleteCaption_handler ::
  "DeleteCaptionInput \<Rightarrow> ActionAPIContext \<Rightarrow> Env \<Rightarrow> Db \<Rightarrow> (error + unit) \<times> Db" where
  "deleteCaption_handler inp context env db =
     (case requireUser context of
        Inl e \<Rightarrow> (Inl e, db)
      | Inr u \<Rightarrow>
          (case getOwnedSession (dc_sessionId inp) (user_id u) db of
             (Inl e, db1) \<Rightarrow> (Inl e, db1)
           | (Inr _, db1) \<Rightarrow>
               (case delete_Captions
                       (\<lambda>r. and_sql (eq (Some (caption_id r)) (Some (dc_id inp)))
                                    (eq (Some (caption_sessionId r)) (Some (dc_sessionId inp)))) db1 of
                  (rowsAffected, db2) \<Rightarrow>
                    (if rowsAffected = 0
                     then (Inl (ActionError NOT_FOUND ''Caption not found.''), db2)
                     else (Inr (), db2)))))"

record ListCaptionsInput =
  lc_sessionId :: string

definition listCaptions_input :: "ListCaptionsInput \<Rightarrow> bool" where
  "listCaptions_input inp = min1 (lc_sessionId inp)"

definition listCaptions_handler ::
  "ListCaptionsInput \<Rightarrow> ActionAPIContext \<Rightarrow> Env \<Rightarrow> Db \<Rightarrow> (error + CaptionRow Listing) \<times> Db" where
  "listCaptions_handler inp context env db =
     (case requireUser context of
        Inl e \<Rightarrow> (Inl e, db)
      | Inr u \<Rightarrow>
          (case getOwnedSession (lc_sessionId inp) (user_id u) db of
             (Inl e, db1) \<Rightarrow> (Inl e, db1)
           | (Inr _, db1) \<Rightarrow>
               (case select_Captions
                       (\<lambda>r. eq (Some (caption_sessionId r)) (Some (lc_sessionId inp))) db1 of
                  (captions, db2) \<Rightarrow>
                    (Inr \<lparr>items = captions, total = length captions\<rparr>, db2))))"

subsection \<open>Template handlers\<close>

text \<open>
  The schema of \<open>createTemplate\<close> has the four fields below and no other; a zod object drops
  the keys it does not know. The handler is therefore defined on the record scheme: whatever
  else a request carries (an \<open>isSystem\<close> key, say) is the extension part, which the handler
  has no way to read.
\<close>

record CreateTemplateInput =
  ct_name :: string
  ct_platform :: "string option"
  ct_tone :: "string option"
  ct_body :: string

definition createTemplate_input :: "'x CreateTemplateInput_scheme \<Rightarrow> bool" where
  "createTemplate_input inp = (min1 (ct_name inp) \<and> min1 (ct_body inp))"

definition createTemplate_handler ::
  "'x CreateTemplateInput_scheme \<Rightarrow> ActionAPIContext \<Rightarrow> Env \<Rightarrow> Db \<Rightarrow>
   (error + TemplateRow option) \<times> Db" where
  "createTemplate_handler inp context env db =
     (case requireUser context of
        Inl e \<Rightarrow> (Inl e, db)
      | Inr u \<Rightarrow>
          (case insert_CaptionTemplates
                  \<lparr>template_id = randomUUID env,
                   template_userId = Some (user_id u),
                   template_name = ct_name inp,
                   template_platform = ct_platform inp,
                   template_tone = ct_tone inp,
                   template_body = ct_body inp,
                   template_isSystem = False,
                   template_createdAt = new_Date env\<rparr> db of
             (Inl e, db') \<Rightarrow> (Inl e, db')
           | (Inr rows, db') \<Rightarrow> (Inr (first_row rows), db')))"

text \<open>The second comparison is \<open>eq(CaptionTemplates.userId, null)\<close>, an equality with null.\<close>

definition listTemplates_handler ::
  "unit \<Rightarrow> ActionAPIContext \<Rightarrow> Env \<Rightarrow> Db \<Rightarrow> (error + TemplateRow Listing) \<times> Db" where
  "listTemplates_handler inp context env db =
     (case requireUser context of
        Inl e \<Rightarrow> (Inl e, db)
      | Inr u \<Rightarrow>
          (case select_CaptionTemplates
                  (\<lambda>r. or_sql (eq (template_userId r) (Some (user_id u)))
                               (eq (template_userId r) None)) db of
             (templates, db') \<Rightarrow> (Inr \<lparr>items = templates, total = length templates\<rparr>, db')))"

subsection \<open>The exported actions\<close>

text \<open>
  The object \<open>server\<close>: each action is its handler behind its schema. The two list actions
  take \<open>z.object({}).optional()\<close>, which accepts every request.
\<close>

definition createCaptionSession where
  "createCaptionSession = defineAction createCaptionSession_input createCaptionSession_handler"

definition updateCaptionSession where
  "updateCaptionSession = defineAction updateCaptionSession_input updateCaptionSession_handler"

definition listCaptionSessions where
  "listCaptionSessions = defineAction (\<lambda>_. True) listCaptionSessions_handler"

definition createCaption where
  "createCaption = defineAction createCaption_input createCaption_handler"

definition updateCaption where
  "updateCaption = defineAction updateCaption_input updateCaption_handler"

definition deleteCaption where
  "deleteCaption = defineAction deleteCaption_input deleteCaption_handler"

definition listCaptions where
  "listCaptions = defineAction listCaptions_input listCaptions_handler"

definition createTemplate ::
  "'x CreateTemplateInput_scheme \<Rightarrow> ActionAPIContext \<Rightarrow> Env \<Rightarrow> Db \<Rightarrow>
   (error + TemplateRow option) \<times> Db" where
  "createTemplate = defineAction createTemplate_input createTemplate_handler"

definition listTemplates where
  "listTemplates = defineAction (\<lambda>_. True) listTemplates_handler"

subsection \<open>The primary keys\<close>

text \<open>
  Each table declares \<open>id\<close> as its primary key. The properties below that speak of "the" row
  with an id assume the corresponding conjunct; every action keeps all three.
\<close>

definition primary_keys :: "Db \<Rightarrow> bool" where
  "primary_keys db =
     (distinct (map session_id (CaptionSessions db)) \<and> distinct (map caption_id (Captions db)) \<and>
      distinct (map template_id (CaptionTemplates db)))"

subsection \<open>A small store\<close>

text \<open>
  Two users, a visitor who is not signed in, and a store in which alice owns two sessions,
  the first of them with one caption. There are three templates: one without owner, one of
  alice's, and one whose owner column holds the empty string.
\<close>

definition alice :: ActionAPIContext where
  "alice = \<lparr>locals = Some \<lparr>user = Some \<lparr>user_id = ''alice''\<rparr>\<rparr>\<rparr>"

definition bob :: ActionAPIContext where
  "bob = \<lparr>locals = Some \<lparr>user = Some \<lparr>user_id = ''bob''\<rparr>\<rparr>\<rparr>"

definition anonymous :: ActionAPIContext where
  "anonymous = \<lparr>locals = Some \<lparr>user = None\<rparr>\<rparr>"

definition ex_env :: Env where
  "ex_env = \<lparr>randomUUID = ''u-9'', new_Date = 900\<rparr>"

definition launch :: SessionRow where
  "launch = \<lparr>session_id = ''s1'', session_userId = ''alice'', session_name = ''Launch promo'',
     session_description = None, session_coreMessage = Some ''New drop'',
     session_targetAudience = None, session_createdAt = 100, session_updatedAt = 100\<rparr>"

definition teaser :: SessionRow where
  "teaser = \<lparr>session_id = ''s2'', session_userId = ''alice'', session_name = ''Teaser'',
     session_description = None, session_coreMessage = None,
     session_targetAudience = None, session_createdAt = 200, session_updatedAt = 200\<rparr>"

definition variant_a :: CaptionRow where
  "variant_a = \<lparr>caption_id = ''c1'', caption_sessionId = ''s1'',
     caption_platform = Some ''instagram'', caption_tone = None,
     caption_variantLabel = Some ''A'', caption_captionText = ''New drop!'',
     caption_hashtags = None, caption_createdAt = 300\<rparr>"

definition global_template :: TemplateRow where
  "global_template = \<lparr>template_id = ''t1'', template_userId = None,
     template_name = ''Announcement'', template_platform = None, template_tone = None,
     template_body = ''Meet {product}'', template_isSystem = True, template_createdAt = 10\<rparr>"

definition alice_template :: TemplateRow where
  "alice_template = \<lparr>template_id = ''t2'', template_userId = Some ''alice'',
     template_name = ''Mine'', template_platform = None, template_tone = Some ''fun'',
     template_body = ''Hey {name}'', template_isSystem = False, template_createdAt = 20\<rparr>"

definition blank_owner_template :: TemplateRow where
  "blank_owner_template = \<lparr>template_id = ''t3'', template_userId = Some [],
     template_name = ''Blank'', template_platform = None, template_tone = None,
     template_body = ''Body'', template_isSystem = False, template_createdAt = 30\<rparr>"

definition ex_db :: Db where
  "ex_db = \<lparr>CaptionSessions = [launch, teaser], Captions = [variant_a],
     CaptionTemplates = [global_template, alice_template, blank_owner_template],
     statements = []\<rparr>"

text \<open>
  A request to \<open>createCaption\<close> for the first session, and a request to \<open>createTemplate\<close>
  that carries an \<open>isSystem\<close> key besides the fields of the schema.
\<close>

definition plain_caption :: CreateCaptionInput where
  "plain_caption = \<lparr>cc_sessionId = ''s1'', cc_platform = None, cc_tone = None,
     cc_variantLabel = Some ''B'', cc_captionText = ''Fresh drop'', cc_hashtags = None,
     cc_templateId = None\<rparr>"

record CreateTemplateRequest = CreateTemplateInput +
  isSystem :: bool

definition flagged_request :: CreateTemplateRequest where
  "flagged_request = \<lparr>ct_name = ''Promo'', ct_platform = None, ct_tone = Some ''formal'',
     ct_body = ''Dear {name}'', isSystem = True\<rparr>"

section \<open>Properties\<close>

subsection \<open>Auxiliary facts\<close>

lemmas ex_defs = alice_def bob_def anonymous_def ex_env_def launch_def teaser_def variant_a_def
  global_template_def alice_template_def blank_owner_template_def ex_db_def

lemma issue_tables [simp]:
  "CaptionSessions (issue s db) = CaptionSessions db"
  "Captions (issue s db) = Captions db"
  "CaptionTemplates (issue s db) = CaptionTemplates db"
  "statements (issue s db) = statements db @ [s]"
  by (simp_all add: issue_def)

lemma requireUser_absent:
  "locals_user context = None \<Longrightarrow>
   requireUser context =
     Inl (ActionError UNAUTHORIZED ''You must be signed in to perform this action.'')"
  by (simp add: requireUser_def)

lemma requireUser_present: "locals_user context = Some u \<Longrightarrow> requireUser context = Inr u"
  by (simp add: requireUser_def)

text \<open>On columns that are not nullable the predicates are the two-valued ones.\<close>

lemma eq_Some_True [simp]: "(eq (Some x) (Some a) = Some True) = (x = a)"
  by (simp add: eq_def)

lemma and_eq_Some_True [simp]:
  "(and_sql (eq (Some x) (Some a)) (eq (Some y) (Some b)) = Some True) = (x = a \<and> y = b)"
  by (simp add: eq_def and_sql_def)

text \<open>Under a primary key, the rows with the key of a stored row are that row alone.\<close>

lemma filter_key_distinct:
  assumes "distinct (map key rows)" and "r \<in> set rows"
  shows "filter (\<lambda>x. key x = key r) rows = [r]"
  using assms
proof (induction rows)
  case Nil
  then show ?case by simp
next
  case (Cons a rows)
  then show ?case by (auto simp: filter_empty_conv image_iff)
qed

lemma filter_key_absent:
  assumes "k \<notin> key ` set rows"
  shows "filter (\<lambda>x. key x = k) rows = []"
  using assms by (auto simp: filter_empty_conv)

lemma getOwnedSession_eq:
  "getOwnedSession sid uid db =
    (case filter (\<lambda>r. session_id r = sid \<and> session_userId r = uid) (CaptionSessions db) of
       [] \<Rightarrow> Inl (ActionError NOT_FOUND ''Caption session not found.'')
     | s # _ \<Rightarrow> Inr s, issue (Select CaptionSessionsT) db)"
  by (simp add: getOwnedSession_def select_CaptionSessions_def where_sql_def first_row_def
      split: list.splits)

lemma getOwnedSession_owned:
  assumes "s \<in> set (CaptionSessions db)" "session_id s = sid" "session_userId s = uid"
  shows "\<exists>s'. getOwnedSession sid uid db = (Inr s', issue (Select CaptionSessionsT) db)"
proof -
  have "filter (\<lambda>r. session_id r = sid \<and> session_userId r = uid) (CaptionSessions db) \<noteq> []"
    using assms by (auto simp: filter_empty_conv)
  then show ?thesis by (auto simp: getOwnedSession_eq split: list.splits)
qed

lemma ensureTemplateAccessible_eq:
  "ensureTemplateAccessible tid uid db =
    (case filter (\<lambda>r. template_id r = tid) (CaptionTemplates db) of
       [] \<Rightarrow> Inl (ActionError NOT_FOUND ''Template not found.'')
     | t # _ \<Rightarrow> if truthy (template_userId t) \<and> template_userId t \<noteq> Some uid
                then Inl (ActionError FORBIDDEN ''You do not have access to this template.'')
                else Inr t, issue (Select CaptionTemplatesT) db)"
  by (simp add: ensureTemplateAccessible_def select_CaptionTemplates_def where_sql_def
      first_row_def split: list.splits)

lemma caption_other_session:
  assumes "distinct (map caption_id (Captions db))" and "c \<in> set (Captions db)"
    and "caption_sessionId c \<noteq> sid"
  shows "\<forall>r\<in>set (Captions db). \<not> (caption_id r = caption_id c \<and> caption_sessionId r = sid)"
proof
  fix r
  assume r: "r \<in> set (Captions db)"
  have "filter (\<lambda>x. caption_id x = caption_id c) (Captions db) = [c]"
    using filter_key_distinct[OF assms(1,2)] by simp
  moreover have "caption_id r = caption_id c \<Longrightarrow>
      r \<in> set (filter (\<lambda>x. caption_id x = caption_id c) (Captions db))"
    using r by simp
  ultimately have "caption_id r = caption_id c \<Longrightarrow> r = c"
    by simp
  then show "\<not> (caption_id r = caption_id c \<and> caption_sessionId r = sid)"
    using assms(3) by auto
qed

lemma ex_db_templates_distinct: "distinct (map template_id (CaptionTemplates ex_db))"
  by (simp add: ex_defs)

subsection \<open>The primary keys are kept\<close>

text \<open>
  No action introduces a second row under an id: an insertion under a used id is refused by
  the store, an update leaves \<open>id\<close> alone, and a deletion only removes rows. The three list
  actions do not write.
\<close>

lemma primary_keys_issue [simp]: "primary_keys (issue s db) = primary_keys db"
  by (simp add: primary_keys_def)

lemma session_id_set [simp]: "session_id (updateCaptionSession_set inp env r) = session_id r"
  by (simp add: updateCaptionSession_set_def)

lemma caption_id_set [simp]: "caption_id (updateCaption_set inp r) = caption_id r"
  by (simp add: updateCaption_set_def)

lemma session_id_comp_set [simp]:
  "session_id \<circ> (\<lambda>r. if P r then updateCaptionSession_set inp env r else r) = session_id"
  by (auto simp: fun_eq_iff)

lemma caption_id_comp_set [simp]:
  "caption_id \<circ> (\<lambda>r. if P r then updateCaption_set inp r else r) = caption_id"
  by (auto simp: fun_eq_iff)

lemma pk_createCaptionSession:
  "primary_keys db \<Longrightarrow> primary_keys (snd (createCaptionSession inp context env db))"
  by (auto simp: createCaptionSession_def defineAction_def createCaptionSession_handler_def
      insert_CaptionSessions_def primary_keys_def Let_def split: sum.splits)

lemma pk_createTemplate:
  "primary_keys db \<Longrightarrow> primary_keys (snd (createTemplate inp context env db))"
  by (auto simp: createTemplate_def defineAction_def createTemplate_handler_def
      insert_CaptionTemplates_def primary_keys_def split: sum.splits)

lemma pk_updateCaptionSession:
  "primary_keys db \<Longrightarrow> primary_keys (snd (updateCaptionSession inp context env db))"
  by (auto simp: updateCaptionSession_def defineAction_def updateCaptionSession_handler_def
      getOwnedSession_eq update_CaptionSessions_def primary_keys_def
      split: sum.splits list.splits)

lemma pk_updateCaption:
  "primary_keys db \<Longrightarrow> primary_keys (snd (updateCaption inp context env db))"
  by (auto simp: updateCaption_def defineAction_def updateCaption_handler_def
      getOwnedSession_eq select_Captions_def update_Captions_def primary_keys_def
      first_row_def split: sum.splits list.splits)

lemma pk_deleteCaption:
  "primary_keys db \<Longrightarrow> primary_keys (snd (deleteCaption inp context env db))"
  by (auto simp: deleteCaption_def defineAction_def deleteCaption_handler_def
      getOwnedSession_eq delete_Captions_def primary_keys_def distinct_map_filter
      split: sum.splits list.splits)

lemma pk_createCaption:
  "primary_keys db \<Longrightarrow> primary_keys (snd (createCaption inp context env db))"
  by (auto simp: createCaption_def defineAction_def createCaption_handler_def
      getOwnedSession_eq ensureTemplateAccessible_eq insert_Captions_def primary_keys_def
      split: sum.splits list.splits option.splits)

subsection \<open>Listing templates\<close>

text \<open>
  What \<open>listTemplates\<close> returns for a signed-in user: the rows whose \<open>userId\<close> equals the
  user's id, in table order, and their number. A row whose \<open>userId\<close> is null satisfies
  neither disjunct of the \<open>where\<close> clause, the second being an equality with null.
\<close>

lemma listTemplates_returns_own_rows:
  assumes "locals_user context = Some u"
  shows "listTemplates x context env db =
     (Inr \<lparr>items = filter (\<lambda>t. template_userId t = Some (user_id u)) (CaptionTemplates db),
           total = length (filter (\<lambda>t. template_userId t = Some (user_id u))
                             (CaptionTemplates db))\<rparr>,
      issue (Select CaptionTemplatesT) db)"
proof -
  have w: "where_sql (\<lambda>r. or_sql (eq (template_userId r) (Some (user_id u)))
                                  (eq (template_userId r) None)) rows
        = filter (\<lambda>t. template_userId t = Some (user_id u)) rows" for rows
    unfolding where_sql_def
    by (rule filter_cong) (auto simp: eq_def or_sql_def split: option.splits)
  show ?thesis
    by (simp add: listTemplates_def defineAction_def listTemplates_handler_def
        requireUser_present[OF assms] select_CaptionTemplates_def w)
qed

text \<open>
  Claim C1 says that \<open>listTemplates\<close> returns the acting user's templates together with every
  template whose \<open>userId\<close> is null, and that \<open>total\<close> is the number of items. In the small
  store the first template has no owner; listed for alice, the items are her own template
  alone and the total is 1, so the ownerless template is left out.
\<close>

theorem listTemplates_omits_ownerless_template:
  "global_template \<in> set (CaptionTemplates ex_db) \<and> template_userId global_template = None \<and>
   fst (listTemplates () alice ex_env ex_db) = Inr \<lparr>items = [alice_template], total = 1\<rparr>"
  by (simp add: ex_defs listTemplates_def defineAction_def listTemplates_handler_def
      requireUser_def locals_user_def select_CaptionTemplates_def where_sql_def eq_def or_sql_def)

subsection \<open>The session guard\<close>

text \<open>
  Claim C2: when no session row has both the given id and the given owner,
  \<open>getOwnedSession\<close> fails with \<open>NOT_FOUND\<close>; and this result is the very result obtained
  for an id that no session has at all, in whatever store. A session of another user is
  therefore answered exactly as a missing one.
\<close>

theorem getOwnedSession_hides_foreign_session:
  assumes "\<forall>s\<in>set (CaptionSessions db). session_id s = sessionId \<longrightarrow> session_userId s \<noteq> userId"
  shows "fst (getOwnedSession sessionId userId db) =
           Inl (ActionError NOT_FOUND ''Caption session not found.'') \<and>
    (\<forall>db' absentId. absentId \<notin> session_id ` set (CaptionSessions db') \<longrightarrow>
        fst (getOwnedSession absentId userId db') = fst (getOwnedSession sessionId userId db))"
proof -
  have a: "filter (\<lambda>r. session_id r = sessionId \<and> session_userId r = userId)
             (CaptionSessions db) = []"
    using assms by (auto simp: filter_empty_conv)
  have b: "filter (\<lambda>r. session_id r = k \<and> session_userId r = userId) (CaptionSessions db') = []"
    if "k \<notin> session_id ` set (CaptionSessions db')" for db' :: Db and k
    using that by (auto simp: filter_empty_conv)
  show ?thesis
    by (simp add: getOwnedSession_eq a b)
qed

theorem getOwnedSession_hides_foreign_session_witness:
  "fst (getOwnedSession ''s1'' ''bob'' ex_db) =
     Inl (ActionError NOT_FOUND ''Caption session not found.'') \<and>
   fst (getOwnedSession ''s7'' ''bob'' ex_db) = fst (getOwnedSession ''s1'' ''bob'' ex_db)"
proof -
  have h: "\<forall>s\<in>set (CaptionSessions ex_db). session_id s = ''s1'' \<longrightarrow> session_userId s \<noteq> ''bob''"
    by (simp add: ex_defs)
  have e: "''s7'' \<notin> session_id ` set (CaptionSessions ex_db)"
    by (simp add: ex_defs)
  from getOwnedSession_hides_foreign_session[OF h] e show ?thesis
    by blast
qed

subsection \<open>The template guard\<close>

text \<open>
  Claim C3 says that \<open>ensureTemplateAccessible\<close> fails with \<open>FORBIDDEN\<close> whenever the
  template exists and has an owner different from the acting user. As stated this fails for
  a template whose owner column holds the empty string: the column is not null, its value
  differs from bob's id, and bob is given the template.
\<close>

theorem ensureTemplateAccessible_blank_owner_counterexample:
  "blank_owner_template \<in> set (CaptionTemplates ex_db) \<and>
   template_userId blank_owner_template = Some [] \<and>
   template_userId blank_owner_template \<noteq> Some ''bob'' \<and>
   fst (ensureTemplateAccessible ''t3'' ''bob'' ex_db) = Inr blank_owner_template"
  by (simp add: ex_defs ensureTemplateAccessible_def select_CaptionTemplates_def where_sql_def
      eq_def first_row_def truthy_def)

text \<open>
  Claim C3, amended: \<open>ensureTemplateAccessible\<close> fails with \<open>NOT_FOUND\<close> when no template has
  the id; when the template exists it fails with \<open>FORBIDDEN\<close> if its owner is a non-empty
  string different from the acting user's id, and returns the template otherwise, that is
  when the owner is null, the empty string, or the acting user. The table is taken with its
  primary key, so that "the template with this id" is one row.
\<close>

theorem ensureTemplateAccessible_outcomes:
  assumes "distinct (map template_id (CaptionTemplates db))"
  shows "(templateId \<notin> template_id ` set (CaptionTemplates db) \<longrightarrow>
           fst (ensureTemplateAccessible templateId userId db) =
             Inl (ActionError NOT_FOUND ''Template not found.'')) \<and>
         (\<forall>t\<in>set (CaptionTemplates db). template_id t = templateId \<longrightarrow>
           fst (ensureTemplateAccessible templateId userId db) =
             (if template_userId t \<notin> {None, Some [], Some userId}
              then Inl (ActionError FORBIDDEN ''You do not have access to this template.'')
              else Inr t))"
proof (intro conjI impI ballI)
  assume "templateId \<notin> template_id ` set (CaptionTemplates db)"
  then show "fst (ensureTemplateAccessible templateId userId db) =
      Inl (ActionError NOT_FOUND ''Template not found.'')"
    by (simp add: ensureTemplateAccessible_eq filter_key_absent)
next
  fix t
  assume t: "t \<in> set (CaptionTemplates db)" "template_id t = templateId"
  have "filter (\<lambda>r. template_id r = templateId) (CaptionTemplates db) = [t]"
    using filter_key_distinct[OF assms t(1)] t(2) by simp
  then show "fst (ensureTemplateAccessible templateId userId db) =
             (if template_userId t \<notin> {None, Some [], Some userId}
              then Inl (ActionError FORBIDDEN ''You do not have access to this template.'')
              else Inr t)"
    by (auto simp: ensureTemplateAccessible_eq truthy_def split: option.splits)
qed

theorem ensureTemplateAccessible_outcomes_witness:
  "fst (ensureTemplateAccessible ''t9'' ''bob'' ex_db) =
     Inl (ActionError NOT_FOUND ''Template not found.'') \<and>
   fst (ensureTemplateAccessible ''t2'' ''bob'' ex_db) =
     Inl (ActionError FORBIDDEN ''You do not have access to this template.'') \<and>
   fst (ensureTemplateAccessible ''t2'' ''alice'' ex_db) = Inr alice_template \<and>
   fst (ensureTemplateAccessible ''t1'' ''bob'' ex_db) = Inr global_template"
proof -
  have a: "''t9'' \<notin> template_id ` set (CaptionTemplates ex_db)"
    by (simp add: ex_defs)
  have m: "alice_template \<in> set (CaptionTemplates ex_db)" "template_id alice_template = ''t2''"
       "template_userId alice_template = Some ''alice''"
       "global_template \<in> set (CaptionTemplates ex_db)" "template_id global_template = ''t1''"
       "template_userId global_template = None"
    by (simp_all add: ex_defs)
  show ?thesis
    using ensureTemplateAccessible_outcomes[OF ex_db_templates_distinct, of "''t9''" "''bob''"] a
      ensureTemplateAccessible_outcomes[OF ex_db_templates_distinct, of "''t2''" "''bob''"]
      ensureTemplateAccessible_outcomes[OF ex_db_templates_distinct, of "''t2''" "''alice''"]
      ensureTemplateAccessible_outcomes[OF ex_db_templates_distinct, of "''t1''" "''bob''"] m
    by auto
qed

text \<open>
  Claim C10: a template whose stored \<open>userId\<close> is the empty string is returned by
  \<open>ensureTemplateAccessible\<close> to every acting user, as an ownerless template is.
\<close>

theorem ensureTemplateAccessible_blank_owner_is_global:
  assumes "distinct (map template_id (CaptionTemplates db))"
    and "t \<in> set (CaptionTemplates db)" and "template_userId t = Some []"
  shows "fst (ensureTemplateAccessible (template_id t) userId db) = Inr t"
proof -
  have "filter (\<lambda>r. template_id r = template_id t) (CaptionTemplates db) = [t]"
    using filter_key_distinct[OF assms(1,2)] by simp
  then show ?thesis
    using assms(3) by (simp add: ensureTemplateAccessible_eq truthy_def)
qed

theorem ensureTemplateAccessible_blank_owner_is_global_witness:
  "fst (ensureTemplateAccessible ''t3'' ''bob'' ex_db) = Inr blank_owner_template \<and>
   fst (ensureTemplateAccessible ''t3'' ''alice'' ex_db) = Inr blank_owner_template"
proof -
  have m: "blank_owner_template \<in> set (CaptionTemplates ex_db)"
    "template_userId blank_owner_template = Some []" "template_id blank_owner_template = ''t3''"
    by (simp_all add: ex_defs)
  show ?thesis
    using ensureTemplateAccessible_blank_owner_is_global[OF ex_db_templates_distinct m(1,2), of "''bob''"]
      ensureTemplateAccessible_blank_owner_is_global[OF ex_db_templates_distinct m(1,2), of "''alice''"]
      m(3)
    by simp
qed

subsection \<open>Updates without a field\<close>

text \<open>
  Claim C5: an input to \<open>updateCaptionSession\<close> or to \<open>updateCaption\<close> that has none of the
  updatable fields is rejected as invalid input, and the store that comes back is the store
  that went in: no statement was issued and no row was created, changed or deleted.
\<close>

theorem update_without_fields_rejected:
  "(ucs_name i = None \<and> ucs_description i = None \<and> ucs_coreMessage i = None \<and>
    ucs_targetAudience i = None \<longrightarrow>
     updateCaptionSession i context env db = (Inl ActionInputError, db)) \<and>
   (uc_platform j = None \<and> uc_tone j = None \<and> uc_variantLabel j = None \<and>
    uc_captionText j = None \<and> uc_hashtags j = None \<longrightarrow>
     updateCaption j context env db = (Inl ActionInputError, db))"
  by (simp add: updateCaptionSession_def updateCaption_def defineAction_def
      updateCaptionSession_input_def updateCaption_input_def)

theorem update_without_fields_rejected_witness:
  "updateCaptionSession \<lparr>ucs_id = ''s1'', ucs_name = None, ucs_description = None,
       ucs_coreMessage = None, ucs_targetAudience = None\<rparr> alice ex_env ex_db
     = (Inl ActionInputError, ex_db) \<and>
   updateCaption \<lparr>uc_id = ''c1'', uc_sessionId = ''s1'', uc_platform = None, uc_tone = None,
       uc_variantLabel = None, uc_captionText = None, uc_hashtags = None\<rparr> alice ex_env ex_db
     = (Inl ActionInputError, ex_db)"
  using update_without_fields_rejected[of "\<lparr>ucs_id = ''s1'', ucs_name = None,
       ucs_description = None, ucs_coreMessage = None, ucs_targetAudience = None\<rparr>"
       alice ex_env ex_db
       "\<lparr>uc_id = ''c1'', uc_sessionId = ''s1'', uc_platform = None, uc_tone = None,
       uc_variantLabel = None, uc_captionText = None, uc_hashtags = None\<rparr>"]
  by simp

subsection \<open>A caption under the wrong session\<close>

text \<open>
  Claim C4: let caption \<open>c\<close> be stored, and let the acting user own a session whose id is
  not the one \<open>c\<close> belongs to. Then \<open>updateCaption\<close> and \<open>deleteCaption\<close>, called with the id
  of \<open>c\<close> and the id of that other session, fail with \<open>NOT_FOUND\<close>, and the caption table is
  what it was, so \<open>c\<close> is stored unchanged. The caption table is taken with its primary key.
\<close>

theorem caption_under_other_session_not_found:
  assumes user: "locals_user context = Some u"
    and owned: "s \<in> set (CaptionSessions db)" "session_id s = sid" "session_userId s = user_id u"
    and pk: "distinct (map caption_id (Captions db))"
    and c: "c \<in> set (Captions db)" "caption_sessionId c \<noteq> sid"
    and upd: "updateCaption_input i" "uc_id i = caption_id c" "uc_sessionId i = sid"
    and del: "deleteCaption_input j" "dc_id j = caption_id c" "dc_sessionId j = sid"
  shows "fst (updateCaption i context env db) = Inl (ActionError NOT_FOUND ''Caption not found.'') \<and>
         Captions (snd (updateCaption i context env db)) = Captions db \<and>
         fst (deleteCaption j context env db) = Inl (ActionError NOT_FOUND ''Caption not found.'') \<and>
         Captions (snd (deleteCaption j context env db)) = Captions db"
proof -
  obtain s' where g: "getOwnedSession sid (user_id u) db = (Inr s', issue (Select CaptionSessionsT) db)"
    using getOwnedSession_owned[OF owned] by blast
  have nomatch: "\<forall>r\<in>set (Captions db). \<not> (caption_id r = caption_id c \<and> caption_sessionId r = sid)"
    using caption_other_session[OF pk c] .
  have none: "filter (\<lambda>r. caption_id r = caption_id c \<and> caption_sessionId r = sid) (Captions db) = []"
    using nomatch by (auto simp: filter_empty_conv)
  have keep: "filter (\<lambda>r. caption_id r = caption_id c \<longrightarrow> caption_sessionId r \<noteq> sid) (Captions db)
      = Captions db"
    using nomatch by (auto simp: filter_id_conv)
  have u1: "updateCaption i context env db =
      (Inl (ActionError NOT_FOUND ''Caption not found.''),
       issue (Select CaptionsT) (issue (Select CaptionSessionsT) db))"
    using upd by (simp add: updateCaption_def defineAction_def updateCaption_handler_def
        requireUser_present[OF user] g select_Captions_def where_sql_def none first_row_def)
  have d1: "deleteCaption j context env db =
      (Inl (ActionError NOT_FOUND ''Caption not found.''),
       issue (Delete CaptionsT) ((issue (Select CaptionSessionsT) db)\<lparr>Captions := Captions db\<rparr>))"
    using del by (simp add: deleteCaption_def defineAction_def deleteCaption_handler_def
        requireUser_present[OF user] g delete_Captions_def where_sql_def none keep)
  show ?thesis
    by (simp add: u1 d1)
qed

theorem caption_under_other_session_not_found_witness:
  "fst (updateCaption \<lparr>uc_id = ''c1'', uc_sessionId = ''s2'', uc_platform = None, uc_tone = None,
       uc_variantLabel = None, uc_captionText = Some ''hijacked'', uc_hashtags = None\<rparr>
         alice ex_env ex_db)
     = Inl (ActionError NOT_FOUND ''Caption not found.'') \<and>
   Captions (snd (updateCaption \<lparr>uc_id = ''c1'', uc_sessionId = ''s2'', uc_platform = None,
       uc_tone = None, uc_variantLabel = None, uc_captionText = Some ''hijacked'',
       uc_hashtags = None\<rparr> alice ex_env ex_db))
     = Captions ex_db \<and>
   fst (deleteCaption \<lparr>dc_id = ''c1'', dc_sessionId = ''s2''\<rparr> alice ex_env ex_db)
     = Inl (ActionError NOT_FOUND ''Caption not found.'') \<and>
   Captions (snd (deleteCaption \<lparr>dc_id = ''c1'', dc_sessionId = ''s2''\<rparr> alice ex_env ex_db))
     = Captions ex_db"
proof -
  have user: "locals_user alice = Some \<lparr>user_id = ''alice''\<rparr>"
    by (simp add: alice_def locals_user_def)
  have owned: "teaser \<in> set (CaptionSessions ex_db)" "session_id teaser = ''s2''"
    "session_userId teaser = user_id \<lparr>user_id = ''alice''\<rparr>"
    by (simp_all add: ex_defs)
  have pk: "distinct (map caption_id (Captions ex_db))"
    by (simp add: ex_defs)
  have c: "variant_a \<in> set (Captions ex_db)" "caption_sessionId variant_a \<noteq> ''s2''"
    by (simp_all add: ex_defs)
  have upd: "updateCaption_input \<lparr>uc_id = ''c1'', uc_sessionId = ''s2'', uc_platform = None,
       uc_tone = None, uc_variantLabel = None, uc_captionText = Some ''hijacked'', uc_hashtags = None\<rparr>"
    "uc_id \<lparr>uc_id = ''c1'', uc_sessionId = ''s2'', uc_platform = None,
       uc_tone = None, uc_variantLabel = None, uc_captionText = Some ''hijacked'', uc_hashtags = None\<rparr>
     = caption_id variant_a"
    "uc_sessionId \<lparr>uc_id = ''c1'', uc_sessionId = ''s2'', uc_platform = None,
       uc_tone = None, uc_variantLabel = None, uc_captionText = Some ''hijacked'', uc_hashtags = None\<rparr>
     = ''s2''"
    by (simp_all add: updateCaption_input_def min1_def variant_a_def)
  have del: "deleteCaption_input \<lparr>dc_id = ''c1'', dc_sessionId = ''s2''\<rparr>"
    "dc_id \<lparr>dc_id = ''c1'', dc_sessionId = ''s2''\<rparr> = caption_id variant_a"
    "dc_sessionId \<lparr>dc_id = ''c1'', dc_sessionId = ''s2''\<rparr> = ''s2''"
    by (simp_all add: deleteCaption_input_def min1_def variant_a_def)
  show ?thesis
    by (rule caption_under_other_session_not_found[OF user owned pk c upd del])
qed

subsection \<open>Creating a caption from a template\<close>

text \<open>
  Claim C6 says that whenever a \<open>templateId\<close> is supplied to \<open>createCaption\<close> the template is
  resolved, with \<open>NOT_FOUND\<close> if it is absent, before a caption is inserted. As stated this
  fails when the supplied \<open>templateId\<close> is the empty string, which the schema accepts: no
  template has that id, yet the only statements issued are the session lookup and the
  insertion, and the caption is created.
\<close>

theorem createCaption_blank_templateId_counterexample:
  "cc_templateId (plain_caption\<lparr>cc_templateId := Some []\<rparr>) = Some [] \<and>
   [] \<notin> template_id ` set (CaptionTemplates ex_db) \<and>
   fst (createCaption (plain_caption\<lparr>cc_templateId := Some []\<rparr>) alice ex_env ex_db) =
     Inr (Some \<lparr>caption_id = ''u-9'', caption_sessionId = ''s1'', caption_platform = None,
        caption_tone = None, caption_variantLabel = Some ''B'', caption_captionText = ''Fresh drop'',
        caption_hashtags = None, caption_createdAt = 900\<rparr>) \<and>
   statements (snd (createCaption (plain_caption\<lparr>cc_templateId := Some []\<rparr>) alice ex_env ex_db)) =
     [Select CaptionSessionsT, Insert CaptionsT]"
  by (simp add: plain_caption_def ex_defs createCaption_def defineAction_def createCaption_input_def
      min1_def createCaption_handler_def requireUser_def locals_user_def getOwnedSession_def
      select_CaptionSessions_def where_sql_def first_row_def truthy_def insert_Captions_def)

text \<open>
  Claim C6, amended: let a signed-in user call \<open>createCaption\<close> with a valid input whose
  \<open>templateId\<close> is a non-empty string. If the user owns the session and no template has the
  id, the call fails with \<open>NOT_FOUND\<close>; if the user owns the session and the template has a
  non-empty owner other than the user, it fails with \<open>FORBIDDEN\<close>; in both cases the tables
  are untouched and the statements issued are the two lookups. If the call succeeds, the
  template guard accepted the template, it was looked up before the insertion, exactly one
  caption was appended, and its \<open>captionText\<close> is the input's.
\<close>

theorem createCaption_checks_template_before_insert:
  assumes user: "locals_user context = Some u"
    and valid: "createCaption_input inp"
    and tid: "cc_templateId inp = Some templateId" "templateId \<noteq> []"
  shows
   "((\<exists>s\<in>set (CaptionSessions db). session_id s = cc_sessionId inp \<and> session_userId s = user_id u) \<and>
     templateId \<notin> template_id ` set (CaptionTemplates db) \<longrightarrow>
       createCaption inp context env db =
         (Inl (ActionError NOT_FOUND ''Template not found.''),
          issue (Select CaptionTemplatesT) (issue (Select CaptionSessionsT) db))) \<and>
    (\<forall>t owner.
       (\<exists>s\<in>set (CaptionSessions db). session_id s = cc_sessionId inp \<and> session_userId s = user_id u) \<and>
       distinct (map template_id (CaptionTemplates db)) \<and> t \<in> set (CaptionTemplates db) \<and>
       template_id t = templateId \<and> template_userId t = Some owner \<and> owner \<noteq> [] \<and>
       owner \<noteq> user_id u \<longrightarrow>
       createCaption inp context env db =
         (Inl (ActionError FORBIDDEN ''You do not have access to this template.''),
          issue (Select CaptionTemplatesT) (issue (Select CaptionSessionsT) db))) \<and>
    (\<forall>r. fst (createCaption inp context env db) = Inr r \<longrightarrow>
       (\<exists>c t. r = Some c \<and> fst (ensureTemplateAccessible templateId (user_id u) db) = Inr t \<and>
          caption_captionText c = cc_captionText inp \<and>
          Captions (snd (createCaption inp context env db)) = Captions db @ [c] \<and>
          statements (snd (createCaption inp context env db)) =
            statements db @ [Select CaptionSessionsT, Select CaptionTemplatesT, Insert CaptionsT]))"
proof (intro conjI allI impI)
  assume a: "(\<exists>s\<in>set (CaptionSessions db). session_id s = cc_sessionId inp \<and> session_userId s = user_id u) \<and>
     templateId \<notin> template_id ` set (CaptionTemplates db)"
  then obtain s' where g: "getOwnedSession (cc_sessionId inp) (user_id u) db =
      (Inr s', issue (Select CaptionSessionsT) db)"
    using getOwnedSession_owned by blast
  have "filter (\<lambda>r. template_id r = templateId) (CaptionTemplates db) = []"
    using a by (simp add: filter_key_absent)
  then show "createCaption inp context env db =
         (Inl (ActionError NOT_FOUND ''Template not found.''),
          issue (Select CaptionTemplatesT) (issue (Select CaptionSessionsT) db))"
    using valid tid
    by (simp add: createCaption_def defineAction_def createCaption_handler_def
        requireUser_present[OF user] g truthy_def ensureTemplateAccessible_eq)
next
  fix t owner
  assume a: "(\<exists>s\<in>set (CaptionSessions db). session_id s = cc_sessionId inp \<and> session_userId s = user_id u) \<and>
       distinct (map template_id (CaptionTemplates db)) \<and> t \<in> set (CaptionTemplates db) \<and>
       template_id t = templateId \<and> template_userId t = Some owner \<and> owner \<noteq> [] \<and>
       owner \<noteq> user_id u"
  then obtain s' where g: "getOwnedSession (cc_sessionId inp) (user_id u) db =
      (Inr s', issue (Select CaptionSessionsT) db)"
    using getOwnedSession_owned by blast
  have "filter (\<lambda>r. template_id r = templateId) (CaptionTemplates db) = [t]"
    using a filter_key_distinct[of template_id "CaptionTemplates db" t] by auto
  then show "createCaption inp context env db =
         (Inl (ActionError FORBIDDEN ''You do not have access to this template.''),
          issue (Select CaptionTemplatesT) (issue (Select CaptionSessionsT) db))"
    using valid tid a
    by (simp add: createCaption_def defineAction_def createCaption_handler_def
        requireUser_present[OF user] g truthy_def ensureTemplateAccessible_eq)
next
  fix r
  assume ok: "fst (createCaption inp context env db) = Inr r"
  then show "\<exists>c t. r = Some c \<and> fst (ensureTemplateAccessible templateId (user_id u) db) = Inr t \<and>
          caption_captionText c = cc_captionText inp \<and>
          Captions (snd (createCaption inp context env db)) = Captions db @ [c] \<and>
          statements (snd (createCaption inp context env db)) =
            statements db @ [Select CaptionSessionsT, Select CaptionTemplatesT, Insert CaptionsT]"
    using valid tid
    by (auto simp: createCaption_def defineAction_def createCaption_handler_def
        requireUser_present[OF user] truthy_def getOwnedSession_eq ensureTemplateAccessible_eq
        insert_Captions_def first_row_def split: list.splits if_splits)
qed

theorem createCaption_checks_template_before_insert_witness:
  "createCaption (plain_caption\<lparr>cc_templateId := Some ''t9''\<rparr>) alice ex_env ex_db =
     (Inl (ActionError NOT_FOUND ''Template not found.''),
      issue (Select CaptionTemplatesT) (issue (Select CaptionSessionsT) ex_db)) \<and>
   createCaption (plain_caption\<lparr>cc_sessionId := ''s3'', cc_templateId := Some ''t2''\<rparr>) bob ex_env
       (ex_db\<lparr>CaptionSessions := [launch, teaser, teaser\<lparr>session_id := ''s3'', session_userId := ''bob''\<rparr>]\<rparr>) =
     (Inl (ActionError FORBIDDEN ''You do not have access to this template.''),
      issue (Select CaptionTemplatesT) (issue (Select CaptionSessionsT)
       (ex_db\<lparr>CaptionSessions := [launch, teaser, teaser\<lparr>session_id := ''s3'', session_userId := ''bob''\<rparr>]\<rparr>))) \<and>
   Captions (snd (createCaption (plain_caption\<lparr>cc_templateId := Some ''t2''\<rparr>) alice ex_env ex_db)) =
     Captions ex_db @ [\<lparr>caption_id = ''u-9'', caption_sessionId = ''s1'', caption_platform = None,
        caption_tone = None, caption_variantLabel = Some ''B'', caption_captionText = ''Fresh drop'',
        caption_hashtags = None, caption_createdAt = 900\<rparr>]"
proof -
  let ?db = "ex_db\<lparr>CaptionSessions := [launch, teaser, teaser\<lparr>session_id := ''s3'', session_userId := ''bob''\<rparr>]\<rparr>"
  have ua: "locals_user alice = Some \<lparr>user_id = ''alice''\<rparr>"
    and ub: "locals_user bob = Some \<lparr>user_id = ''bob''\<rparr>"
    by (simp_all add: alice_def bob_def locals_user_def)
  have v: "createCaption_input (plain_caption\<lparr>cc_templateId := Some ''t9''\<rparr>)"
    "createCaption_input (plain_caption\<lparr>cc_sessionId := ''s3'', cc_templateId := Some ''t2''\<rparr>)"
    "createCaption_input (plain_caption\<lparr>cc_templateId := Some ''t2''\<rparr>)"
    by (simp_all add: createCaption_input_def min1_def plain_caption_def)
  have n: "(\<exists>s\<in>set (CaptionSessions ex_db).
        session_id s = cc_sessionId (plain_caption\<lparr>cc_templateId := Some ''t9''\<rparr>) \<and>
        session_userId s = user_id \<lparr>user_id = ''alice''\<rparr>) \<and>
      ''t9'' \<notin> template_id ` set (CaptionTemplates ex_db)"
    by (simp add: ex_defs plain_caption_def)
  have f: "(\<exists>s\<in>set (CaptionSessions ?db).
        session_id s = cc_sessionId (plain_caption\<lparr>cc_sessionId := ''s3'', cc_templateId := Some ''t2''\<rparr>) \<and>
        session_userId s = user_id \<lparr>user_id = ''bob''\<rparr>) \<and>
      distinct (map template_id (CaptionTemplates ?db)) \<and> alice_template \<in> set (CaptionTemplates ?db) \<and>
      template_id alice_template = ''t2'' \<and> template_userId alice_template = Some ''alice'' \<and>
      ''alice'' \<noteq> [] \<and> ''alice'' \<noteq> user_id \<lparr>user_id = ''bob''\<rparr>"
    by (simp add: ex_defs plain_caption_def)
  have ok: "fst (createCaption (plain_caption\<lparr>cc_templateId := Some ''t2''\<rparr>) alice ex_env ex_db) =
     Inr (Some \<lparr>caption_id = ''u-9'', caption_sessionId = ''s1'', caption_platform = None,
        caption_tone = None, caption_variantLabel = Some ''B'', caption_captionText = ''Fresh drop'',
        caption_hashtags = None, caption_createdAt = 900\<rparr>)"
    by (simp add: plain_caption_def ex_defs createCaption_def defineAction_def createCaption_input_def
      min1_def createCaption_handler_def requireUser_def locals_user_def getOwnedSession_def
      select_CaptionSessions_def where_sql_def first_row_def truthy_def insert_Captions_def
      ensureTemplateAccessible_def select_CaptionTemplates_def)
  have t9: "cc_templateId (plain_caption\<lparr>cc_templateId := Some ''t9''\<rparr>) = Some ''t9''" "''t9'' \<noteq> []"
    and t2b: "cc_templateId (plain_caption\<lparr>cc_sessionId := ''s3'', cc_templateId := Some ''t2''\<rparr>) = Some ''t2''"
    and t2: "cc_templateId (plain_caption\<lparr>cc_templateId := Some ''t2''\<rparr>) = Some ''t2''" "''t2'' \<noteq> []"
    by simp_all
  have p1: "createCaption (plain_caption\<lparr>cc_templateId := Some ''t9''\<rparr>) alice ex_env ex_db =
     (Inl (ActionError NOT_FOUND ''Template not found.''),
      issue (Select CaptionTemplatesT) (issue (Select CaptionSessionsT) ex_db))"
    using createCaption_checks_template_before_insert[OF ua v(1) t9, of ex_db ex_env] n by blast
  have p2: "createCaption (plain_caption\<lparr>cc_sessionId := ''s3'', cc_templateId := Some ''t2''\<rparr>) bob ex_env ?db =
     (Inl (ActionError FORBIDDEN ''You do not have access to this template.''),
      issue (Select CaptionTemplatesT) (issue (Select CaptionSessionsT) ?db))"
    using createCaption_checks_template_before_insert[OF ub v(2) t2b t2(2), of ?db ex_env] f by blast
  have p3: "Captions (snd (createCaption (plain_caption\<lparr>cc_templateId := Some ''t2''\<rparr>) alice ex_env ex_db)) =
     Captions ex_db @ [\<lparr>caption_id = ''u-9'', caption_sessionId = ''s1'', caption_platform = None,
        caption_tone = None, caption_variantLabel = Some ''B'', caption_captionText = ''Fresh drop'',
        caption_hashtags = None, caption_createdAt = 900\<rparr>]"
    using createCaption_checks_template_before_insert[OF ua v(3) t2, of ex_db ex_env] ok by auto
  show ?thesis
    using p1 p2 p3 by blast
qed

subsection \<open>Creating a template\<close>

text \<open>
  Claim C7: whatever the input to \<open>createTemplate\<close>, extra keys included, a successful call
  appends one template, which has \<open>isSystem = False\<close> and the acting user's id as \<open>userId\<close>;
  a failed call leaves the template table as it was. The call does succeed for a signed-in
  user, a valid input and a fresh id.
\<close>

theorem createTemplate_owner_and_isSystem:
  "(\<forall>r. fst (createTemplate inp context env db) = Inr r \<longrightarrow>
      (\<exists>t u. r = Some t \<and> locals_user context = Some u \<and> template_isSystem t = False \<and>
             template_userId t = Some (user_id u) \<and>
             CaptionTemplates (snd (createTemplate inp context env db)) = CaptionTemplates db @ [t])) \<and>
   (\<forall>e. fst (createTemplate inp context env db) = Inl e \<longrightarrow>
      CaptionTemplates (snd (createTemplate inp context env db)) = CaptionTemplates db) \<and>
   (\<forall>u. locals_user context = Some u \<and> createTemplate_input inp \<and>
        randomUUID env \<notin> template_id ` set (CaptionTemplates db) \<longrightarrow>
      (\<exists>t. fst (createTemplate inp context env db) = Inr (Some t)))"
  by (auto simp: createTemplate_def defineAction_def createTemplate_handler_def requireUser_def
      insert_CaptionTemplates_def first_row_def split: option.splits if_splits)

theorem createTemplate_owner_and_isSystem_witness:
  "isSystem flagged_request = True \<and>
   fst (createTemplate flagged_request alice ex_env ex_db) =
     Inr (Some \<lparr>template_id = ''u-9'', template_userId = Some ''alice'', template_name = ''Promo'',
       template_platform = None, template_tone = Some ''formal'', template_body = ''Dear {name}'',
       template_isSystem = False, template_createdAt = 900\<rparr>)"
  using createTemplate_owner_and_isSystem[of flagged_request alice ex_env ex_db]
  by (simp add: flagged_request_def ex_defs createTemplate_def defineAction_def
      createTemplate_input_def min1_def createTemplate_handler_def requireUser_def
      locals_user_def insert_CaptionTemplates_def first_row_def)

subsection \<open>Updating a session\<close>

text \<open>
  Claim C8: when \<open>updateCaptionSession\<close> succeeds, the acting user owns a session \<open>s\<close> with
  the given id, and the row returned is \<open>s\<close> with each supplied field replaced, every other
  field (\<open>id\<close>, \<open>userId\<close>, \<open>createdAt\<close> and the fields not supplied) as before, and
  \<open>updatedAt\<close> set to the current date. In the session table that row takes the place of
  \<open>s\<close> and all other rows are as before; the other two tables are untouched. The session
  table is taken with its primary key.
\<close>

theorem updateCaptionSession_partial_update:
  assumes pk: "distinct (map session_id (CaptionSessions db))"
    and ok: "fst (updateCaptionSession inp context env db) = Inr r"
  shows "\<exists>u s s'. locals_user context = Some u \<and> s \<in> set (CaptionSessions db) \<and>
      session_id s = ucs_id inp \<and> session_userId s = user_id u \<and> r = Some s' \<and>
      session_id s' = session_id s \<and> session_userId s' = session_userId s \<and>
      session_createdAt s' = session_createdAt s \<and>
      session_name s' = (case ucs_name inp of None \<Rightarrow> session_name s | Some v \<Rightarrow> v) \<and>
      session_description s' =
        (case ucs_description inp of None \<Rightarrow> session_description s | Some v \<Rightarrow> Some v) \<and>
      session_coreMessage s' =
        (case ucs_coreMessage inp of None \<Rightarrow> session_coreMessage s | Some v \<Rightarrow> Some v) \<and>
      session_targetAudience s' =
        (case ucs_targetAudience inp of None \<Rightarrow> session_targetAudience s | Some v \<Rightarrow> Some v) \<and>
      session_updatedAt s' = new_Date env \<and>
      CaptionSessions (snd (updateCaptionSession inp context env db)) =
        map (\<lambda>x. if x = s then s' else x) (CaptionSessions db) \<and>
      Captions (snd (updateCaptionSession inp context env db)) = Captions db \<and>
      CaptionTemplates (snd (updateCaptionSession inp context env db)) = CaptionTemplates db"
proof -
  from ok have valid: "updateCaptionSession_input inp"
    by (auto simp: updateCaptionSession_def defineAction_def split: if_splits)
  from ok valid obtain u where u: "locals_user context = Some u"
    by (cases "locals_user context")
      (auto simp: updateCaptionSession_def defineAction_def updateCaptionSession_handler_def
        requireUser_def)
  let ?F = "filter (\<lambda>x. session_id x = ucs_id inp \<and> session_userId x = user_id u) (CaptionSessions db)"
  from ok valid u obtain s rest where f: "?F = s # rest"
    by (cases ?F)
      (auto simp: updateCaptionSession_def defineAction_def updateCaptionSession_handler_def
        requireUser_present getOwnedSession_eq)
  have "s \<in> set ?F" by (simp add: f)
  then have s: "s \<in> set (CaptionSessions db)" "session_id s = ucs_id inp"
    "session_userId s = user_id u"
    by simp_all
  have one: "filter (\<lambda>x. session_id x = ucs_id inp) (CaptionSessions db) = [s]"
    using filter_key_distinct[OF pk s(1)] s(2) by simp
  have only: "\<forall>x\<in>set (CaptionSessions db). (session_id x = ucs_id inp) = (x = s)"
  proof
    fix x assume "x \<in> set (CaptionSessions db)"
    then have "session_id x = ucs_id inp \<Longrightarrow>
        x \<in> set (filter (\<lambda>x. session_id x = ucs_id inp) (CaptionSessions db))"
      by simp
    then show "(session_id x = ucs_id inp) = (x = s)"
      using s(2) by (auto simp: one)
  qed
  have tab: "map (\<lambda>x. if session_id x = ucs_id inp then updateCaptionSession_set inp env x else x)
        (CaptionSessions db)
      = map (\<lambda>x. if x = s then updateCaptionSession_set inp env s else x) (CaptionSessions db)"
    by (rule map_cong) (use only in auto)
  have res: "updateCaptionSession inp context env db =
      (Inr (Some (updateCaptionSession_set inp env s)),
       issue (Update CaptionSessionsT)
         ((issue (Select CaptionSessionsT) db)\<lparr>CaptionSessions :=
            map (\<lambda>x. if x = s then updateCaptionSession_set inp env s else x) (CaptionSessions db)\<rparr>))"
    using valid
    by (simp add: updateCaptionSession_def defineAction_def updateCaptionSession_handler_def
        requireUser_present[OF u] getOwnedSession_eq f update_CaptionSessions_def where_sql_def
        one first_row_def tab)
  from ok res have r: "r = Some (updateCaptionSession_set inp env s)"
    by simp
  have frame: "CaptionSessions (snd (updateCaptionSession inp context env db)) =
        map (\<lambda>x. if x = s then updateCaptionSession_set inp env s else x) (CaptionSessions db)"
    "Captions (snd (updateCaptionSession inp context env db)) = Captions db"
    "CaptionTemplates (snd (updateCaptionSession inp context env db)) = CaptionTemplates db"
    by (simp_all add: res)
  show ?thesis
    by (intro exI[of _ u] exI[of _ s] exI[of _ "updateCaptionSession_set inp env s"] conjI
        u s r frame) (simp_all add: updateCaptionSession_set_def)
qed

theorem updateCaptionSession_partial_update_witness:
  "fst (updateCaptionSession \<lparr>ucs_id = ''s1'', ucs_name = None, ucs_description = Some ''Spring'',
        ucs_coreMessage = None, ucs_targetAudience = None\<rparr> alice ex_env ex_db) =
     Inr (Some (launch\<lparr>session_description := Some ''Spring'', session_updatedAt := 900\<rparr>)) \<and>
   Captions (snd (updateCaptionSession \<lparr>ucs_id = ''s1'', ucs_name = None,
        ucs_description = Some ''Spring'', ucs_coreMessage = None, ucs_targetAudience = None\<rparr>
        alice ex_env ex_db)) = Captions ex_db \<and>
   CaptionTemplates (snd (updateCaptionSession \<lparr>ucs_id = ''s1'', ucs_name = None,
        ucs_description = Some ''Spring'', ucs_coreMessage = None, ucs_targetAudience = None\<rparr>
        alice ex_env ex_db)) = CaptionTemplates ex_db"
proof -
  have pk: "distinct (map session_id (CaptionSessions ex_db))"
    by (simp add: ex_defs)
  have ok: "fst (updateCaptionSession \<lparr>ucs_id = ''s1'', ucs_name = None,
        ucs_description = Some ''Spring'', ucs_coreMessage = None, ucs_targetAudience = None\<rparr>
        alice ex_env ex_db) =
     Inr (Some (launch\<lparr>session_description := Some ''Spring'', session_updatedAt := 900\<rparr>))"
    by (simp add: ex_defs updateCaptionSession_def defineAction_def updateCaptionSession_input_def
        min1_def optional_min1_def updateCaptionSession_handler_def requireUser_def
        locals_user_def getOwnedSession_def select_CaptionSessions_def where_sql_def
        first_row_def update_CaptionSessions_def updateCaptionSession_set_def)
  from updateCaptionSession_partial_update[OF pk ok] ok show ?thesis
    by blast
qed

subsection \<open>Handlers without a user\<close>

text \<open>
  Claim C9: when the request context has no user, each of the nine handlers fails with
  \<open>UNAUTHORIZED\<close> and returns the store it was given: no statement was issued, so nothing
  was read or written.
\<close>

theorem handlers_require_user:
  assumes "locals_user context = None"
  shows "createCaptionSession_handler i1 context env db = (Inl (ActionError UNAUTHORIZED ''You must be signed in to perform this action.''), db) \<and>
   updateCaptionSession_handler i2 context env db = (Inl (ActionError UNAUTHORIZED ''You must be signed in to perform this action.''), db) \<and>
   listCaptionSessions_handler i3 context env db = (Inl (ActionError UNAUTHORIZED ''You must be signed in to perform this action.''), db) \<and>
   createCaption_handler i4 context env db = (Inl (ActionError UNAUTHORIZED ''You must be signed in to perform this action.''), db) \<and>
   updateCaption_handler i5 context env db = (Inl (ActionError UNAUTHORIZED ''You must be signed in to perform this action.''), db) \<and>
   deleteCaption_handler i6 context env db = (Inl (ActionError UNAUTHORIZED ''You must be signed in to perform this action.''), db) \<and>
   listCaptions_handler i7 context env db = (Inl (ActionError UNAUTHORIZED ''You must be signed in to perform this action.''), db) \<and>
   createTemplate_handler i8 context env db = (Inl (ActionError UNAUTHORIZED ''You must be signed in to perform this action.''), db) \<and>
   listTemplates_handler i9 context env db = (Inl (ActionError UNAUTHORIZED ''You must be signed in to perform this action.''), db)"
  by (simp add: requireUser_absent[OF assms] createCaptionSession_handler_def
      updateCaptionSession_handler_def listCaptionSessions_handler_def createCaption_handler_def
      updateCaption_handler_def deleteCaption_handler_def listCaptions_handler_def
      createTemplate_handler_def listTemplates_handler_def)

theorem handlers_require_user_witness:
  "createCaptionSession_handler \<lparr>ccs_name = ''Launch'', ccs_description = None,
      ccs_coreMessage = None, ccs_targetAudience = None\<rparr> anonymous ex_env ex_db =
     (Inl (ActionError UNAUTHORIZED ''You must be signed in to perform this action.''), ex_db) \<and>
   deleteCaption_handler \<lparr>dc_id = ''c1'', dc_sessionId = ''s1''\<rparr> anonymous ex_env ex_db =
     (Inl (ActionError UNAUTHORIZED ''You must be signed in to perform this action.''), ex_db) \<and>
   listTemplates_handler () \<lparr>locals = None\<rparr> ex_env ex_db =
     (Inl (ActionError UNAUTHORIZED ''You must be signed in to perform this action.''), ex_db)"
proof -
  have a: "locals_user anonymous = None" "locals_user \<lparr>locals = None\<rparr> = None"
    by (simp_all add: anonymous_def locals_user_def)
  show ?thesis
    using handlers_require_user[OF a(1), of "\<lparr>ccs_name = ''Launch'', ccs_description = None,
      ccs_coreMessage = None, ccs_targetAudience = None\<rparr>" ex_env ex_db _ _ _ _
      "\<lparr>dc_id = ''c1'', dc_sessionId = ''s1''\<rparr>"]
      handlers_require_user[OF a(2), of _ ex_env ex_db _ _ _ _ _ _ _ "()"]
    by blast
qed

end
